theory Spec2Isabelle
  imports Main "HOL-Library.Sublist"
begin

section \<open>Text primitives of the article generator\<close>

text \<open>
  The application (\<^verbatim>\<open>app.py\<close>) works on Python strings. A string is modelled as a
  list of characters, and the character classes of Python's \<^verbatim>\<open>re\<close> module and of
  \<^verbatim>\<open>str.lower\<close> are given for ASCII text, which is where they are determined by the
  language alone: \<^verbatim>\<open>\w\<close> is a letter, a digit or the underscore, \<^verbatim>\<open>\s\<close> is one of
  the ten ASCII white-space characters of \<^verbatim>\<open>str.isspace\<close>, and lower-casing maps
  \<^verbatim>\<open>A-Z\<close> to \<^verbatim>\<open>a-z\<close>. Code points above ASCII are outside the model.
\<close>

definition upper_chars :: string where
  "upper_chars = ''ABCDEFGHIJKLMNOPQRSTUVWXYZ''"

definition lower_chars :: string where
  "lower_chars = ''abcdefghijklmnopqrstuvwxyz''"

definition digit_chars :: string where
  "digit_chars = ''0123456789''"

definition lower_chr :: "char \<Rightarrow> char" where
  "lower_chr c = (case map_of (zip upper_chars lower_chars) c of Some d \<Rightarrow> d | None \<Rightarrow> c)"

definition py_lower :: "string \<Rightarrow> string" where
  "py_lower s = map lower_chr s"


definition is_word :: "char \<Rightarrow> bool" where
  "is_word c = (c \<in> set (lower_chars @ upper_chars @ digit_chars @ ''_''))"

definition is_space :: "char \<Rightarrow> bool" where
  "is_space c = (c \<in> set [CHR 0x09, CHR 0x0A, CHR 0x0B, CHR 0x0C, CHR 0x0D,
                            CHR 0x1C, CHR 0x1D, CHR 0x1E, CHR 0x1F, CHR 0x20])"

text \<open>The decimal text of a natural number, as an f-string prints an index or a length.\<close>

function str_nat :: "nat \<Rightarrow> string" where
  "str_nat n = (if n < 10 then [digit_chars ! n] else str_nat (n div 10) @ [digit_chars ! (n mod 10)])"
  by pat_completeness auto
termination
  by (relation "measure (\<lambda>n. n)") auto

declare str_nat.simps [simp del]

subsection \<open>\<^verbatim>\<open>generate_seo_filename\<close>\<close>

text \<open>
  \<^verbatim>\<open>re.sub(r'[^\w\s-]', '', text.lower())\<close> deletes every character outside the class;
  \<^verbatim>\<open>re.sub(r'[-\s]+', '-', clean_text)\<close> replaces each maximal run of hyphens and white
  space by one hyphen.
\<close>

definition keep_chr :: "char \<Rightarrow> bool" where
  "keep_chr c = (is_word c \<or> is_space c \<or> c = CHR ''-'')"

definition is_sep :: "char \<Rightarrow> bool" where
  "is_sep c = (c = CHR ''-'' \<or> is_space c)"

function (sequential) collapse_seps :: "string \<Rightarrow> string" where
  "collapse_seps [] = []"
| "collapse_seps (c # cs) =
     (if is_sep c then CHR ''-'' # collapse_seps (dropWhile is_sep cs)
      else c # collapse_seps cs)"
  by pat_completeness auto
termination
  by (relation "measure length") (auto simp: length_dropWhile_le less_Suc_eq_le)

text \<open>The local variable \<^verbatim>\<open>clean_text\<close> after its third assignment.\<close>

definition clean_text :: "string \<Rightarrow> string" where
  "clean_text text = take 50 (collapse_seps (filter keep_chr (py_lower text)))"

text \<open>
  \<^verbatim>\<open>timestamp\<close> is the value of \<^verbatim>\<open>datetime.now().strftime("%Y%m%d")\<close>: the clock is
  outside the program, so the stamp is an argument.
\<close>

definition generate_seo_filename :: "string \<Rightarrow> string \<Rightarrow> nat \<Rightarrow> string" where
  "generate_seo_filename timestamp text index =
     clean_text text @ ''-'' @ timestamp @ ''-'' @ str_nat index @ ''.webp''"

subsection \<open>The other string operations\<close>

text \<open>\<^verbatim>\<open>str.strip()\<close>, \<^verbatim>\<open>str.split(',')\<close> and the two \<^verbatim>\<open>re.sub\<close> calls of step 3 that
  delete the code fences \<^verbatim>\<open>```html\<close> and \<^verbatim>\<open>```\<close>, each with the line break after it.\<close>

definition py_strip :: "string \<Rightarrow> string" where
  "py_strip s = rev (dropWhile is_space (rev (dropWhile is_space s)))"

fun split_on :: "char \<Rightarrow> string \<Rightarrow> string list" where
  "split_on sep [] = [[]]"
| "split_on sep (c # cs) =
     (if c = sep then [] # split_on sep cs
      else (case split_on sep cs of [] \<Rightarrow> [[c]] | w # ws \<Rightarrow> (c # w) # ws))"

definition drop_newline :: "string \<Rightarrow> string" where
  "drop_newline s = (case s of [] \<Rightarrow> [] | c # cs \<Rightarrow> if c = CHR 0x0A then cs else s)"

function (sequential) remove_fence :: "string \<Rightarrow> string \<Rightarrow> string" where
  "remove_fence pat [] = []"
| "remove_fence pat (c # cs) =
     (if pat \<noteq> [] \<and> prefix pat (c # cs)
      then remove_fence pat (drop_newline (drop (length pat) (c # cs)))
      else c # remove_fence pat cs)"
  by pat_completeness auto
termination
proof (relation "measure (\<lambda>(pat, s). length s)")
  fix pat :: string and c :: char and cs :: string
  assume "pat \<noteq> [] \<and> prefix pat (c # cs)"
  then have "length (drop (length pat) (c # cs)) < length (c # cs)"
    by (cases pat) auto
  moreover have "length (drop_newline t) \<le> length t" for t
    by (cases t) (auto simp: drop_newline_def)
  ultimately have "length (drop_newline (drop (length pat) (c # cs))) < length (c # cs)"
    by (meson le_less_trans)
  then show "((pat, drop_newline (drop (length pat) (c # cs))), (pat, c # cs))
      \<in> measure (\<lambda>(pat, s). length s)"
    by simp
qed auto

definition clean_response :: "string \<Rightarrow> string" where
  "clean_response response = remove_fence ''```'' (remove_fence ''```html'' (py_strip response))"

section \<open>The two regular expressions\<close>

subsection \<open>\<^verbatim>\<open>re.search(r'\{.*\}', response, re.DOTALL)\<close>\<close>

text \<open>
  With \<^verbatim>\<open>re.DOTALL\<close> the dot matches every character, and \<^verbatim>\<open>.*\<close> is greedy: from a
  position that holds an opening brace the match runs to the last closing brace after it.
  \<^verbatim>\<open>re.search\<close> takes the leftmost position where the pattern matches. The result is
  \<^verbatim>\<open>json_match.group()\<close>, or \<^verbatim>\<open>None\<close>.
\<close>

fun greedy_to_brace :: "string \<Rightarrow> string option" where
  "greedy_to_brace [] = None"
| "greedy_to_brace (c # cs) =
     (case greedy_to_brace cs of
        Some r \<Rightarrow> Some (c # r)
      | None \<Rightarrow> if c = CHR ''}'' then Some [c] else None)"

fun re_search_braces :: "string \<Rightarrow> string option" where
  "re_search_braces [] = None"
| "re_search_braces (c # cs) =
     (case (if c = CHR ''{'' then greedy_to_brace cs else None) of
        Some r \<Rightarrow> Some (c # r)
      | None \<Rightarrow> re_search_braces cs)"

subsection \<open>The heading pattern of step 6\<close>

text \<open>
  \<^verbatim>\<open>re.search(f"<h2>.*?{re.escape(heading)}.*?</h2>", content, re.IGNORECASE)\<close>.
  Without \<^verbatim>\<open>re.DOTALL\<close> the dot matches every character but the line feed. Both
  \<^verbatim>\<open>.*?\<close> are lazy: the matcher tries the shortest extension first and backtracks to a
  longer one when the rest of the pattern fails. The literal parts are compared without
  regard to case. The functions return the number of characters matched; the search
  returns \<^verbatim>\<open>match.end()\<close>.
\<close>

fun match_ci :: "string \<Rightarrow> string \<Rightarrow> bool" where
  "match_ci [] s = True"
| "match_ci (p # ps) [] = False"
| "match_ci (p # ps) (c # cs) = (lower_chr p = lower_chr c \<and> match_ci ps cs)"

fun lazy_to_close :: "string \<Rightarrow> nat option" where
  "lazy_to_close [] = None"
| "lazy_to_close (c # cs) =
     (if match_ci ''</h2>'' (c # cs) then Some 5
      else if c = CHR 0x0A then None
      else map_option Suc (lazy_to_close cs))"

fun lazy_to_heading :: "string \<Rightarrow> string \<Rightarrow> nat option" where
  "lazy_to_heading heading [] = None"
| "lazy_to_heading heading (c # cs) =
     (case (if match_ci heading (c # cs) then lazy_to_close (drop (length heading) (c # cs))
            else None) of
        Some m \<Rightarrow> Some (length heading + m)
      | None \<Rightarrow> if c = CHR 0x0A then None else map_option Suc (lazy_to_heading heading cs))"

definition match_heading_at :: "string \<Rightarrow> string \<Rightarrow> nat option" where
  "match_heading_at heading s =
     (if match_ci ''<h2>'' s then map_option (\<lambda>m. 4 + m) (lazy_to_heading heading (drop 4 s))
      else None)"

fun search_heading_from :: "string \<Rightarrow> nat \<Rightarrow> string \<Rightarrow> nat option" where
  "search_heading_from heading k [] = None"
| "search_heading_from heading k (c # cs) =
     (case match_heading_at heading (c # cs) of
        Some e \<Rightarrow> Some (k + e)
      | None \<Rightarrow> search_heading_from heading (Suc k) cs)"

definition search_heading :: "string \<Rightarrow> string \<Rightarrow> nat option" where
  "search_heading heading content = search_heading_from heading 0 content"

section \<open>Python values, dictionaries and exceptions\<close>

text \<open>
  The article record and the image plan hold what \<^verbatim>\<open>json.loads\<close> returns and what the
  forms write: \<^verbatim>\<open>None\<close>, booleans, integers, strings, lists and dictionaries (numbers
  with a fraction are outside the model). A dictionary inside a value is its list of
  items. An operation that raises in Python returns the exception on the left.
\<close>

datatype json = JNull | JBool bool | JInt int | JStr string | JArr "json list"
  | JObj "(string \<times> json) list"

datatype error = KeyError string | TypeError | AttributeError | JSONDecodeError string

definition and_then :: "error + 'a \<Rightarrow> ('a \<Rightarrow> error + 'b) \<Rightarrow> error + 'b" where
  "and_then m f = (case m of Inl e \<Rightarrow> Inl e | Inr x \<Rightarrow> f x)"

text \<open>\<^verbatim>\<open>v[key]\<close> and \<^verbatim>\<open>v.get(key, default)\<close> with a string key, on a decoded value.\<close>

fun subscript :: "json \<Rightarrow> string \<Rightarrow> error + json" where
  "subscript (JObj kvs) k = (case map_of kvs k of None \<Rightarrow> Inl (KeyError k) | Some v \<Rightarrow> Inr v)"
| "subscript v k = Inl TypeError"

fun py_get :: "json \<Rightarrow> string \<Rightarrow> json \<Rightarrow> error + json" where
  "py_get (JObj kvs) k dflt = Inr (case map_of kvs k of None \<Rightarrow> dflt | Some v \<Rightarrow> v)"
| "py_get v k dflt = Inl AttributeError"

text \<open>Truth of a value in \<^verbatim>\<open>if v:\<close>, iteration over it, and \<^verbatim>\<open>len(v)\<close>.\<close>

fun truthy :: "json \<Rightarrow> bool" where
  "truthy JNull = False"
| "truthy (JBool b) = b"
| "truthy (JInt i) = (i \<noteq> 0)"
| "truthy (JStr s) = (s \<noteq> [])"
| "truthy (JArr xs) = (xs \<noteq> [])"
| "truthy (JObj kvs) = (kvs \<noteq> [])"

fun iterate :: "json \<Rightarrow> error + json list" where
  "iterate (JArr xs) = Inr xs"
| "iterate (JObj kvs) = Inr (map (\<lambda>kv. JStr (fst kv)) kvs)"
| "iterate (JStr s) = Inr (map (\<lambda>c. JStr [c]) s)"
| "iterate v = Inl TypeError"

fun py_len :: "json \<Rightarrow> error + nat" where
  "py_len (JArr xs) = Inr (length xs)"
| "py_len (JObj kvs) = Inr (length kvs)"
| "py_len (JStr s) = Inr (length s)"
| "py_len v = Inl TypeError"

text \<open>A method of \<^verbatim>\<open>str\<close> (\<^verbatim>\<open>lower\<close>, \<^verbatim>\<open>title\<close>) called on a value.\<close>

fun str_method :: "json \<Rightarrow> error + string" where
  "str_method (JStr s) = Inr s"
| "str_method v = Inl AttributeError"

text \<open>
  The article record \<^verbatim>\<open>st.session_state.article_data\<close> is a dictionary from field names
  to values: \<^verbatim>\<open>data[key]\<close>, \<^verbatim>\<open>data.get(key, default)\<close> and \<^verbatim>\<open>data.update(items)\<close>.
\<close>

type_synonym article = "string \<rightharpoonup> json"

definition data_item :: "article \<Rightarrow> string \<Rightarrow> error + json" where
  "data_item d k = (case d k of None \<Rightarrow> Inl (KeyError k) | Some v \<Rightarrow> Inr v)"

definition data_get :: "article \<Rightarrow> string \<Rightarrow> json \<Rightarrow> json" where
  "data_get d k dflt = (case d k of None \<Rightarrow> dflt | Some v \<Rightarrow> v)"

definition data_update :: "article \<Rightarrow> (string \<times> json) list \<Rightarrow> article" where
  "data_update d kvs = fold (\<lambda>kv m. m(fst kv \<mapsto> snd kv)) kvs d"

section \<open>Session state, widgets and the outside world\<close>

text \<open>
  \<^verbatim>\<open>st.session_state\<close> holds the step, the article record and the uploaded images (an
  uploaded file is its bytes).
\<close>

record session =
  step :: int
  article_data :: article
  images :: "string list"


text \<open>
  One run of the script reads what the widgets of the current step return: these values
  are the inputs of the run. A button returns \<^verbatim>\<open>True\<close> in the run that its click starts.
  The calls that only display (\<^verbatim>\<open>st.markdown\<close>, \<^verbatim>\<open>st.image\<close>, the widgets themselves)
  belong to the presentation layer and are taken to return normally; the exceptions of
  the script's own expressions (a missing key, a method that the value does not have) are
  part of the model.
\<close>

record step1_form =
  topic :: string
  keyword :: string
  tone :: string
  word_count :: int
  submitted :: bool

record step2_form =
  title_input :: string
  meta_desc_input :: string
  slug_input :: string
  focus_input :: string
  outline_text :: string
  categories_input :: string
  tags_input :: string
  back_to_topic :: bool
  next_step :: bool

record step3_input =
  edited_content :: string
  back_to_outline :: bool
  plan_images :: bool

record step4_input =
  back_to_content :: bool
  upload_images :: bool

record step5_input =
  uploaded_files :: "string list"
  back_to_image_plan :: bool
  publish_clicked :: bool

record step6_input =
  upload_draft :: bool
  start_new_article :: bool

record inputs =
  form1 :: step1_form
  form2 :: step2_form
  input3 :: step3_input
  input4 :: step4_input
  input5 :: step5_input
  input6 :: step6_input
  reset_app :: bool

text \<open>
  The services the script calls are parameters of a run. An HTTP call either raises (with
  the text of the exception) or returns a response: its status code, its text and its
  decoded body (\<^verbatim>\<open>response.json()\<close>, which raises when the body is not JSON). The bodies
  have the fields the WordPress REST interface returns on success.
\<close>

datatype 'a response = Request_failed string | Response nat string "string + 'a"

record media_data =
  media_id :: int
  source_url :: string

record post_body =
  rendered_title :: string
  post_status :: string
  link :: string

text \<open>The dictionary \<^verbatim>\<open>post_data\<close> that \<^verbatim>\<open>create_wordpress_post\<close> sends.\<close>

record post_data =
  p_title :: json
  p_content :: json
  p_status :: string
  p_slug :: json
  p_meta_description :: json
  p_categories :: "int list"
  p_tags :: "int list"
  p_featured_media :: int

text \<open>
  \<^item> \<^verbatim>\<open>secrets\<close>: \<^verbatim>\<open>st.secrets\<close>;
  \<^item> \<^verbatim>\<open>genai_configure\<close>: the text of the exception when \<^verbatim>\<open>genai.configure\<close> or
    \<^verbatim>\<open>genai.GenerativeModel\<close> raises for this key;
  \<^item> \<^verbatim>\<open>generate_content\<close>: \<^verbatim>\<open>model.generate_content(prompt).text\<close> of the one call a
    run makes, or the text of its exception (the prompt only informs the service, whose
    answer is arbitrary, so its text is not modelled);
  \<^item> \<^verbatim>\<open>json_loads\<close>: \<^verbatim>\<open>json.loads\<close>, or the text of its exception;
  \<^item> \<^verbatim>\<open>py_str\<close>: \<^verbatim>\<open>str(v)\<close> of a value that is not a string, as an f-string prints it;
  \<^item> \<^verbatim>\<open>image_to_webp\<close>: the bytes Pillow encodes, or the text of its exception;
  \<^item> \<^verbatim>\<open>post_media\<close> (file name, bytes), \<^verbatim>\<open>post_media_alt\<close> (media id, alt text; the
    text of the exception when the call raises), \<^verbatim>\<open>get_categories\<close>, \<^verbatim>\<open>get_tags\<close> and
    \<^verbatim>\<open>post_posts\<close>: the calls of \<^verbatim>\<open>requests\<close> to the WordPress site;
  \<^item> \<^verbatim>\<open>timestamp_now\<close>: \<^verbatim>\<open>datetime.now().strftime("%Y%m%d")\<close>.
\<close>

record env =
  secrets :: "string \<rightharpoonup> string"
  genai_configure :: "string \<Rightarrow> string option"
  generate_content :: "string + string"
  json_loads :: "string \<Rightarrow> string + json"
  py_str :: "json \<Rightarrow> string"
  image_to_webp :: "string \<Rightarrow> string + string"
  post_media :: "string \<Rightarrow> string \<Rightarrow> media_data response"
  post_media_alt :: "int \<Rightarrow> string \<Rightarrow> string option"
  get_categories :: "(string \<times> int) list response"
  get_tags :: "(string \<times> int) list response"
  post_posts :: "post_data \<Rightarrow> post_body response"
  timestamp_now :: string

text \<open>
  What a run shows and sends: the messages of \<^verbatim>\<open>st.error\<close>, \<^verbatim>\<open>st.warning\<close>,
  \<^verbatim>\<open>st.success\<close> and \<^verbatim>\<open>st.code\<close> (without the pictograms of the source's texts), and
  the requests to the WordPress site. A run ends by reaching the end of the script, by
  \<^verbatim>\<open>st.rerun()\<close>, by \<^verbatim>\<open>st.stop()\<close> or by an exception that no handler catches; what it
  wrote to the session state before stays written.
\<close>

datatype event =
    St_error string
  | St_warning string
  | St_success string
  | St_code string
  | Http_media string string
  | Http_media_alt int string
  | Http_get_categories
  | Http_get_tags
  | Http_create_post post_data

datatype outcome = Completed | Rerun | Stopped | Raised error

type_synonym result = "session \<times> outcome \<times> event list"

text \<open>
  A computation that may raise and that shows messages or sends requests on its way: its
  value or exception, and what it emitted. \<^verbatim>\<open>then_do\<close> runs the next statement when the
  first did not raise; \<^verbatim>\<open>quiet\<close> is a computation that emits nothing.
\<close>

type_synonym 'a action = "(error + 'a) \<times> event list"

definition then_do :: "'a action \<Rightarrow> ('a \<Rightarrow> 'b action) \<Rightarrow> 'b action" where
  "then_do m f =
     (case m of
        (Inl e, evs) \<Rightarrow> (Inl e, evs)
      | (Inr x, evs) \<Rightarrow> (case f x of (r, evs') \<Rightarrow> (r, evs @ evs')))"

definition quiet :: "error + 'a \<Rightarrow> 'a action" where
  "quiet r = (r, [])"

section \<open>The helper functions of \<^verbatim>\<open>app.py\<close>\<close>

text \<open>\<^verbatim>\<open>st.secrets[key]\<close>; the text of the exception for a missing key is the key.\<close>

definition secret :: "env \<Rightarrow> string \<Rightarrow> error + string" where
  "secret env k = (case secrets env k of None \<Rightarrow> Inl (KeyError k) | Some v \<Rightarrow> Inr v)"

text \<open>Lines 26 to 32: the text of the exception the \<^verbatim>\<open>try\<close> block catches, if any.\<close>

definition configure_gemini :: "env \<Rightarrow> string option" where
  "configure_gemini env =
     (case secrets env ''GEMINI_API_KEY'' of
        None \<Rightarrow> Some ''GEMINI_API_KEY''
      | Some api_key \<Rightarrow> genai_configure env api_key)"

definition convert_to_webp :: "env \<Rightarrow> string \<Rightarrow> string option \<times> event list" where
  "convert_to_webp env image_file =
     (case image_to_webp env image_file of
        Inl e \<Rightarrow> (None, [St_error (''Error converting image: '' @ e)])
      | Inr output \<Rightarrow> (Some output, []))"

definition call_gemini :: "env \<Rightarrow> string option \<times> event list" where
  "call_gemini env =
     (case generate_content env of
        Inl e \<Rightarrow> (None, [St_error (''Gemini API Error: '' @ e)])
      | Inr response_text \<Rightarrow> (Some response_text, []))"

text \<open>The three secrets that \<^verbatim>\<open>upload_to_wordpress\<close> and \<^verbatim>\<open>create_wordpress_post\<close> read before
  their \<^verbatim>\<open>try\<close> blocks (the two \<^verbatim>\<open>get\<close> helpers read the first only).\<close>

definition wp_secrets :: "env \<Rightarrow> error + string \<times> string \<times> string" where
  "wp_secrets env =
     and_then (secret env ''WP_URL'') (\<lambda>wp_url.
     and_then (secret env ''WP_USERNAME'') (\<lambda>wp_user.
     and_then (secret env ''WP_APP_PASSWORD'') (\<lambda>wp_pass.
     Inr (wp_url, wp_user, wp_pass))))"

definition upload_to_wordpress :: "env \<Rightarrow> string \<Rightarrow> string \<Rightarrow> string \<Rightarrow> media_data option action" where
  "upload_to_wordpress env image_data filename alt_text =
     (case wp_secrets env of
        Inl e \<Rightarrow> (Inl e, [])
      | Inr creds \<Rightarrow>
         (case post_media env filename image_data of
            Request_failed e \<Rightarrow>
              (Inr None, [Http_media filename image_data,
                          St_error (''Error uploading to WordPress: '' @ e)])
          | Response status_code response_text body \<Rightarrow>
              if status_code = 201 then
                (case body of
                   Inl e \<Rightarrow>
                     (Inr None, [Http_media filename image_data,
                                 St_error (''Error uploading to WordPress: '' @ e)])
                 | Inr media \<Rightarrow>
                     (case post_media_alt env (media_id media) alt_text of
                        Some e \<Rightarrow>
                          (Inr None, [Http_media filename image_data,
                                      Http_media_alt (media_id media) alt_text,
                                      St_error (''Error uploading to WordPress: '' @ e)])
                      | None \<Rightarrow>
                          (Inr (Some media), [Http_media filename image_data,
                                              Http_media_alt (media_id media) alt_text])))
              else
                (Inr None, [Http_media filename image_data,
                            St_error (''WordPress upload failed: '' @ response_text)])))"

definition create_wordpress_post ::
  "env \<Rightarrow> json \<Rightarrow> json \<Rightarrow> json \<Rightarrow> json \<Rightarrow> int list \<Rightarrow> int list \<Rightarrow> int \<Rightarrow> post_body option action" where
  "create_wordpress_post env title content meta_desc slug categories tags featured_image_id =
     (case wp_secrets env of
        Inl e \<Rightarrow> (Inl e, [])
      | Inr creds \<Rightarrow>
         (let post = \<lparr>p_title = title, p_content = content, p_status = ''draft'', p_slug = slug,
                      p_meta_description = meta_desc, p_categories = categories, p_tags = tags,
                      p_featured_media = featured_image_id\<rparr>
          in case post_posts env post of
               Request_failed e \<Rightarrow>
                 (Inr None, [Http_create_post post,
                             St_error (''Error creating WordPress post: '' @ e)])
             | Response status_code response_text body \<Rightarrow>
                 if status_code = 201 then
                   (case body of
                      Inl e \<Rightarrow>
                        (Inr None, [Http_create_post post,
                                    St_error (''Error creating WordPress post: '' @ e)])
                    | Inr created \<Rightarrow> (Inr (Some created), [Http_create_post post]))
                 else
                   (Inr None, [Http_create_post post,
                               St_error (''WordPress post creation failed: '' @ response_text)])))"

text \<open>
  \<^verbatim>\<open>get_wp_categories\<close> and \<^verbatim>\<open>get_wp_tags\<close>: the dictionary from names to ids, empty on
  every failure of the request; a later item of the list overwrites an earlier one of the
  same name.
\<close>

definition name_ids :: "(string \<times> int) list response \<Rightarrow> (string \<rightharpoonup> int)" where
  "name_ids r =
     (case r of
        Request_failed e \<Rightarrow> Map.empty
      | Response status_code response_text body \<Rightarrow>
          if status_code = 200 then
            (case body of
               Inl e \<Rightarrow> Map.empty
             | Inr items \<Rightarrow> fold (\<lambda>item m. m(fst item \<mapsto> snd item)) items Map.empty)
          else Map.empty)"

definition get_wp_categories :: "env \<Rightarrow> (string \<rightharpoonup> int) action" where
  "get_wp_categories env =
     (case secret env ''WP_URL'' of
        Inl e \<Rightarrow> (Inl e, [])
      | Inr wp_url \<Rightarrow> (Inr (name_ids (get_categories env)), [Http_get_categories]))"

definition get_wp_tags :: "env \<Rightarrow> (string \<rightharpoonup> int) action" where
  "get_wp_tags env =
     (case secret env ''WP_URL'' of
        Inl e \<Rightarrow> (Inl e, [])
      | Inr wp_url \<Rightarrow> (Inr (name_ids (get_tags env)), [Http_get_tags]))"

section \<open>Step 6: publishing\<close>

text \<open>An entry of \<^verbatim>\<open>wp_images\<close>.\<close>

record wp_image =
  wp_id :: int
  wp_url :: string
  wp_alt :: string
  wp_caption :: json
  wp_position :: json
  wp_section_heading :: json

text \<open>
  The body of the upload loop (lines 537 to 558) for the image \<^verbatim>\<open>idx\<close>: \<^verbatim>\<open>None\<close> when the
  conversion or the upload failed and the loop goes on, the new entry of \<^verbatim>\<open>wp_images\<close>
  otherwise. \<^verbatim>\<open>generate_seo_filename\<close> calls \<^verbatim>\<open>text.lower()\<close>, so an alt text that is not a
  string raises.
\<close>

definition wp_entry :: "media_data \<Rightarrow> string \<Rightarrow> json \<Rightarrow> error + wp_image" where
  "wp_entry media alt_text img_data =
     and_then (py_get img_data ''caption'' (JStr [])) (\<lambda>caption.
     and_then (py_get img_data ''position'' JNull) (\<lambda>position.
     and_then (py_get img_data ''section_heading'' JNull) (\<lambda>section_heading.
       Inr \<lparr>wp_id = media_id media, wp_url = source_url media, wp_alt = alt_text,
            wp_caption = caption, wp_position = position,
            wp_section_heading = section_heading\<rparr>)))"

definition process_image :: "env \<Rightarrow> nat \<Rightarrow> string \<Rightarrow> json \<Rightarrow> wp_image option action" where
  "process_image env idx img_file img_data =
     (case convert_to_webp env img_file of
        (None, evs) \<Rightarrow> (Inr None, evs)
      | (Some webp_data, evs) \<Rightarrow>
          (case and_then (subscript img_data ''alt_text'') str_method of
             Inl e \<Rightarrow> (Inl e, evs)
           | Inr alt_text \<Rightarrow>
               (let filename = generate_seo_filename (timestamp_now env) alt_text idx in
                case upload_to_wordpress env webp_data filename alt_text of
                  (Inl e, evs1) \<Rightarrow> (Inl e, evs @ evs1)
                | (Inr None, evs1) \<Rightarrow>
                    (Inr None,
                     evs @ evs1 @ [St_error (''Failed to upload image '' @ str_nat idx)])
                | (Inr (Some media), evs1) \<Rightarrow>
                    (case wp_entry media alt_text img_data of
                       Inl e \<Rightarrow> (Inl e, evs @ evs1)
                     | Inr img \<Rightarrow>
                         (Inr (Some img),
                          evs @ evs1
                          @ [St_success (''Image '' @ str_nat idx @ '' uploaded: '' @ filename)])))))"

fun upload_all :: "env \<Rightarrow> nat \<Rightarrow> (string \<times> json) list \<Rightarrow> wp_image list action" where
  "upload_all env idx [] = (Inr [], [])"
| "upload_all env idx (pair # rest) =
     then_do (process_image env idx (fst pair) (snd pair)) (\<lambda>r.
     then_do (upload_all env (Suc idx) rest) (\<lambda>wp_images.
       quiet (Inr (case r of None \<Rightarrow> wp_images | Some img \<Rightarrow> img # wp_images))))"

text \<open>The image block of lines 575 to 578.\<close>

definition format_value :: "env \<Rightarrow> json \<Rightarrow> string" where
  "format_value env v = (case v of JStr s \<Rightarrow> s | _ \<Rightarrow> py_str env v)"

definition img_html :: "env \<Rightarrow> wp_image \<Rightarrow> string" where
  "img_html env img =
     ''\<newline><figure class=\"wp-block-image\"><img src=\"'' @ wp_url img @ ''\" alt=\"'' @ wp_alt img
       @ ''\" />''
     @ (if truthy (wp_caption img)
        then ''<figcaption>'' @ format_value env (wp_caption img) @ ''</figcaption>'' else [])
     @ ''</figure>\<newline>''"

text \<open>
  The body of the splice loop (lines 568 to 580) and the loop over \<^verbatim>\<open>wp_images[1:]\<close>.
  \<^verbatim>\<open>re.escape\<close> and \<^verbatim>\<open>re.search\<close> raise on a value that is not a string.
\<close>

definition insert_image :: "env \<Rightarrow> wp_image \<Rightarrow> json \<Rightarrow> error + json" where
  "insert_image env img content =
     (if truthy (wp_section_heading img) then
        (case wp_section_heading img of
           JStr heading \<Rightarrow>
             (case content of
                JStr c \<Rightarrow>
                  (case search_heading heading c of
                     None \<Rightarrow> Inr content
                   | Some insert_pos \<Rightarrow>
                       Inr (JStr (take insert_pos c @ img_html env img @ drop insert_pos c)))
              | _ \<Rightarrow> Inl TypeError)
         | _ \<Rightarrow> Inl TypeError)
      else Inr content)"

fun insert_images :: "env \<Rightarrow> wp_image list \<Rightarrow> json \<Rightarrow> error + json" where
  "insert_images env [] content = Inr content"
| "insert_images env (img # imgs) content =
     and_then (insert_image env img content) (insert_images env imgs)"

text \<open>
  Lines 586 to 594: the ids of the names the site knows. A name that is a list or a
  dictionary cannot be looked up in a dictionary and raises; another value that is not a
  string is no key of it.
\<close>

fun resolve_ids :: "(string \<rightharpoonup> int) \<Rightarrow> json list \<Rightarrow> error + int list" where
  "resolve_ids known [] = Inr []"
| "resolve_ids known (JStr n # rest) =
     and_then (resolve_ids known rest) (\<lambda>ids.
       Inr (case known n of None \<Rightarrow> ids | Some i \<Rightarrow> i # ids))"
| "resolve_ids known (JArr xs # rest) = Inl TypeError"
| "resolve_ids known (JObj kvs # rest) = Inl TypeError"
| "resolve_ids known (v # rest) = resolve_ids known rest"

text \<open>
  The handler of the button of step 6 up to the return of \<^verbatim>\<open>create_wordpress_post\<close>
  (lines 528 to 606). It reads the session state and writes nothing to it.
\<close>

definition featured_id :: "wp_image list \<Rightarrow> int" where
  "featured_id wp_images = (case wp_images of [] \<Rightarrow> 0 | img # rest \<Rightarrow> wp_id img)"

definition publish :: "env \<Rightarrow> session \<Rightarrow> post_body option action" where
  "publish env s =
     (let data = article_data s in
      then_do (quiet (data_item data ''image_plan'')) (\<lambda>plan.
      then_do (quiet (and_then (subscript plan ''images'') iterate)) (\<lambda>plan_images.
      then_do (upload_all env 1 (zip (images s) plan_images)) (\<lambda>wp_images.
      then_do (quiet (data_item data ''content'')) (\<lambda>content.
      then_do (quiet (insert_images env (tl wp_images) content)) (\<lambda>spliced.
      then_do (get_wp_categories env) (\<lambda>wp_categories.
      then_do (get_wp_tags env) (\<lambda>wp_tags.
      then_do (quiet (and_then (iterate (data_get data ''categories'' (JArr [])))
                        (resolve_ids wp_categories))) (\<lambda>category_ids.
      then_do (quiet (and_then (iterate (data_get data ''tags'' (JArr [])))
                        (resolve_ids wp_tags))) (\<lambda>tag_ids.
      then_do (quiet (data_item data ''title'')) (\<lambda>title.
      then_do (quiet (data_item data ''meta_description'')) (\<lambda>meta_desc.
      then_do (quiet (data_item data ''slug'')) (\<lambda>slug.
        create_wordpress_post env title spliced meta_desc slug category_ids tag_ids
          (featured_id wp_images))))))))))))))"

definition reset :: "session \<Rightarrow> session" where
  "reset s = s\<lparr>step := 1, article_data := Map.empty, images := []\<rparr>"

definition stage6 :: "env \<Rightarrow> step6_input \<Rightarrow> session \<Rightarrow> result" where
  "stage6 env i s =
     (if upload_draft i then
        (case publish env s of
           (Inl e, evs) \<Rightarrow> (s, Raised e, evs)
         | (Inr None, evs) \<Rightarrow>
             (s, Completed, evs @ [St_error
                ''Failed to create WordPress post. Check your credentials and try again.''])
         | (Inr (Some post), evs) \<Rightarrow>
             if start_new_article i
             then (reset s, Rerun, evs @ [St_success ''Article published as DRAFT on WordPress!''])
             else (s, Completed, evs @ [St_success ''Article published as DRAFT on WordPress!'']))
      else (s, Completed, []))"

section \<open>Steps 1 to 5\<close>

subsection \<open>Step 1: topic and keyword\<close>

text \<open>
  Lines 192 to 245. The text handed to \<^verbatim>\<open>json.loads\<close> starts with a brace, so what it
  decodes is a dictionary; for another value \<^verbatim>\<open>update\<close> raises inside the \<^verbatim>\<open>try\<close> block.
\<close>

definition stage1 :: "env \<Rightarrow> step1_form \<Rightarrow> session \<Rightarrow> result" where
  "stage1 env f s =
     (if submitted f \<and> topic f \<noteq> [] \<and> keyword f \<noteq> [] then
        (case call_gemini env of
           (None, evs) \<Rightarrow> (s, Completed, evs)
         | (Some response, evs) \<Rightarrow>
             if response = [] then (s, Completed, evs)
             else
               (case re_search_braces response of
                  None \<Rightarrow> (s, Completed, evs)
                | Some json_match \<Rightarrow>
                    (case json_loads env json_match of
                       Inl e \<Rightarrow>
                         (s, Completed,
                          evs @ [St_error (''Error parsing response: '' @ e), St_code response])
                     | Inr (JObj seo_data) \<Rightarrow>
                         (s\<lparr>article_data :=
                              (data_update (article_data s) seo_data)
                                (''topic'' \<mapsto> JStr (topic f), ''keyword'' \<mapsto> JStr (keyword f),
                                 ''tone'' \<mapsto> JStr (tone f), ''word_count'' \<mapsto> JInt (word_count f)),
                            step := 2\<rparr>,
                          Rerun, evs)
                     | Inr v \<Rightarrow>
                         (s, Completed,
                          evs @ [St_error ''Error parsing response: '', St_code response]))))
      else (s, Completed, []))"

subsection \<open>Step 2: review of the strategy\<close>

text \<open>
  \<^verbatim>\<open>", ".join(v)\<close> of lines 271 and 274 raises unless \<^verbatim>\<open>v\<close> iterates over strings. The
  handler of ``Generate Article'' (lines 286 to 296) has no \<^verbatim>\<open>try\<close> block.
\<close>

definition join_check :: "json \<Rightarrow> error + unit" where
  "join_check v =
     and_then (iterate v) (\<lambda>xs.
       if list_all (\<lambda>x. case x of JStr t \<Rightarrow> True | _ \<Rightarrow> False) xs then Inr () else Inl TypeError)"

definition stripped_names :: "string \<Rightarrow> json" where
  "stripped_names names = JArr (map (\<lambda>n. JStr (py_strip n)) (split_on CHR '','' names))"

definition stage2 :: "env \<Rightarrow> step2_form \<Rightarrow> session \<Rightarrow> result" where
  "stage2 env f s =
     (let data = article_data s in
      case and_then (join_check (data_get data ''suggested_categories'' (JArr [])))
             (\<lambda>u. join_check (data_get data ''suggested_tags'' (JArr []))) of
        Inl e \<Rightarrow> (s, Raised e, [])
      | Inr u \<Rightarrow>
          if back_to_topic f then (s\<lparr>step := 1\<rparr>, Rerun, [])
          else if next_step f then
            (let refined = data(''title'' \<mapsto> JStr (title_input f),
                                ''meta_description'' \<mapsto> JStr (meta_desc_input f),
                                ''slug'' \<mapsto> JStr (slug_input f),
                                ''focus_keyphrase'' \<mapsto> JStr (focus_input f))
             in case json_loads env (outline_text f) of
                  Inl e \<Rightarrow> (s\<lparr>article_data := refined\<rparr>, Raised (JSONDecodeError e), [])
                | Inr outline \<Rightarrow>
                    (s\<lparr>article_data :=
                         refined(''outline'' \<mapsto> outline,
                                 ''categories'' \<mapsto> stripped_names (categories_input f),
                                 ''tags'' \<mapsto> stripped_names (tags_input f)),
                       step := 3\<rparr>,
                     Rerun, []))
          else (s, Completed, []))"

subsection \<open>Step 3: the article\<close>

text \<open>
  The prompt of lines 306 to 335 reads seven fields and lower-cases the tone. The script
  then shows title and meta description, binds \<^verbatim>\<open>content\<close> to the text area (line 360)
  and computes the check list, whose expressions raise on a missing field, on a field
  without \<^verbatim>\<open>lower\<close>, and on a word count that cannot be multiplied by \<^verbatim>\<open>0.8\<close>.
\<close>

definition prompt3_fields :: "article \<Rightarrow> error + unit" where
  "prompt3_fields data =
     and_then (data_item data ''title'') (\<lambda>a.
     and_then (data_item data ''topic'') (\<lambda>b.
     and_then (data_item data ''keyword'') (\<lambda>c.
     and_then (data_item data ''focus_keyphrase'') (\<lambda>d.
     and_then (data_item data ''tone'') (\<lambda>tone_value.
     and_then (data_item data ''word_count'') (\<lambda>e.
     and_then (data_item data ''outline'') (\<lambda>g.
     and_then (str_method tone_value) (\<lambda>h. Inr ()))))))))"

definition float_factor :: "json \<Rightarrow> error + unit" where
  "float_factor v = (case v of JInt n \<Rightarrow> Inr () | JBool b \<Rightarrow> Inr () | _ \<Rightarrow> Inl TypeError)"

definition checklist :: "article \<Rightarrow> error + unit" where
  "checklist data =
     and_then (and_then (data_item data ''keyword'') str_method) (\<lambda>kw.
     and_then (and_then (data_item data ''title'') str_method) (\<lambda>a.
     and_then (and_then (data_item data ''meta_description'') str_method) (\<lambda>b.
     and_then (and_then (data_item data ''word_count'') float_factor) (\<lambda>c. Inr ()))))"

definition generate_article :: "env \<Rightarrow> article \<Rightarrow> article action" where
  "generate_article env data =
     (if data ''content'' = None then
        then_do (quiet (prompt3_fields data)) (\<lambda>u.
          case call_gemini env of
            (None, evs) \<Rightarrow> (Inr data, evs)
          | (Some response, evs) \<Rightarrow>
              (Inr (if response \<noteq> [] then data(''content'' \<mapsto> JStr (clean_response response))
                    else data), evs))
      else (Inr data, []))"

definition stage3 :: "env \<Rightarrow> step3_input \<Rightarrow> session \<Rightarrow> result" where
  "stage3 env i s =
     (case generate_article env (article_data s) of
        (Inl e, evs) \<Rightarrow> (s, Raised e, evs)
      | (Inr generated, evs) \<Rightarrow>
          (case and_then (data_item generated ''title'')
                  (\<lambda>a. data_item generated ''meta_description'') of
             Inl e \<Rightarrow> (s\<lparr>article_data := generated\<rparr>, Raised e, evs)
           | Inr b \<Rightarrow>
               (let edited = generated(''content'' \<mapsto> JStr (edited_content i));
                    s1 = s\<lparr>article_data := edited\<rparr>
                in case checklist edited of
                     Inl e \<Rightarrow> (s1, Raised e, evs)
                   | Inr u \<Rightarrow>
                       if back_to_outline i then (s1\<lparr>step := 2\<rparr>, Rerun, evs)
                       else if plan_images i then (s1\<lparr>step := 4\<rparr>, Rerun, evs)
                       else (s1, Completed, evs))))"

subsection \<open>Step 4: the image plan\<close>

text \<open>
  The prompt of lines 404 to 437 reads the title, a slice of the content and the keyword.
  The plan is shown (lines 451 to 470) when the record has one, and only then are the two
  buttons there; the loop over the descriptors reads \<^verbatim>\<open>prompt\<close> and \<^verbatim>\<open>alt_text\<close> of each
  and calls \<^verbatim>\<open>title()\<close> on its position.
\<close>

definition prompt4_fields :: "article \<Rightarrow> error + unit" where
  "prompt4_fields data =
     and_then (data_item data ''title'') (\<lambda>a.
     and_then (data_item data ''content'') (\<lambda>content.
     and_then (case content of JStr c \<Rightarrow> Inr () | JArr xs \<Rightarrow> Inr () | _ \<Rightarrow> Inl TypeError) (\<lambda>b.
     and_then (data_item data ''keyword'') (\<lambda>c. Inr ()))))"

definition plan_images_of :: "env \<Rightarrow> article \<Rightarrow> article action" where
  "plan_images_of env data =
     (if data ''image_plan'' = None then
        then_do (quiet (prompt4_fields data)) (\<lambda>u.
          case call_gemini env of
            (None, evs) \<Rightarrow> (Inr data, evs)
          | (Some response, evs) \<Rightarrow>
              if response = [] then (Inr data, evs)
              else
                (case re_search_braces response of
                   None \<Rightarrow> (Inr data, evs)
                 | Some json_match \<Rightarrow>
                     (case json_loads env json_match of
                        Inl e \<Rightarrow> (Inr data, evs @ [St_error (''Error parsing image plan: '' @ e)])
                      | Inr image_plan \<Rightarrow> (Inr (data(''image_plan'' \<mapsto> image_plan)), evs))))
      else (Inr data, []))"

definition show_descriptor :: "json \<Rightarrow> error + unit" where
  "show_descriptor img =
     and_then (and_then (py_get img ''position'' (JStr ''Unknown'')) str_method) (\<lambda>a.
     and_then (subscript img ''prompt'') (\<lambda>b.
     and_then (subscript img ''alt_text'') (\<lambda>c. Inr ())))"

fun show_descriptors :: "json list \<Rightarrow> error + unit" where
  "show_descriptors [] = Inr ()"
| "show_descriptors (img # imgs) = and_then (show_descriptor img) (\<lambda>u. show_descriptors imgs)"

definition show_plan :: "json \<Rightarrow> error + unit" where
  "show_plan plan = and_then (and_then (subscript plan ''images'') iterate) show_descriptors"

definition stage4 :: "env \<Rightarrow> step4_input \<Rightarrow> session \<Rightarrow> result" where
  "stage4 env i s =
     (case plan_images_of env (article_data s) of
        (Inl e, evs) \<Rightarrow> (s, Raised e, evs)
      | (Inr planned, evs) \<Rightarrow>
          (let s1 = s\<lparr>article_data := planned\<rparr> in
           case planned ''image_plan'' of
             None \<Rightarrow> (s1, Completed, evs)
           | Some plan \<Rightarrow>
               (case show_plan plan of
                  Inl e \<Rightarrow> (s1, Raised e, evs)
                | Inr u \<Rightarrow>
                    if back_to_content i then (s1\<lparr>step := 3\<rparr>, Rerun, evs)
                    else if upload_images i then (s1\<lparr>step := 5\<rparr>, Rerun, evs)
                    else (s1, Completed, evs))))"

subsection \<open>Step 5: the uploads\<close>

text \<open>
  Lines 486 to 520. \<^verbatim>\<open>images_needed\<close> is the length of the plan's list of descriptors.
  A disabled button returns \<^verbatim>\<open>False\<close>.
\<close>

definition images_needed :: "article \<Rightarrow> error + nat" where
  "images_needed data =
     and_then (py_get (data_get data ''image_plan'' (JObj [])) ''images'' (JArr [])) py_len"

definition publish_disabled :: "string list \<Rightarrow> nat \<Rightarrow> bool" where
  "publish_disabled files needed = (length files \<noteq> needed)"

definition stage5 :: "env \<Rightarrow> step5_input \<Rightarrow> session \<Rightarrow> result" where
  "stage5 env i s =
     (case images_needed (article_data s) of
        Inl e \<Rightarrow> (s, Raised e, [])
      | Inr needed \<Rightarrow>
          (let files = uploaded_files i;
               stored =
                 (if files \<noteq> [] then
                    (if length files \<noteq> needed then
                       (s, [St_warning (''Please upload exactly '' @ str_nat needed
                              @ '' images (you uploaded '' @ str_nat (length files) @ '')'')])
                     else
                       (s\<lparr>images := files\<rparr>,
                        [St_success (''All '' @ str_nat needed @ '' images uploaded!'')]))
                  else (s, []))
           in if back_to_image_plan i then ((fst stored)\<lparr>step := 4\<rparr>, Rerun, snd stored)
              else if publish_clicked i \<and> \<not> publish_disabled files needed
              then ((fst stored)\<lparr>step := 6\<rparr>, Rerun, snd stored)
              else (fst stored, Completed, snd stored)))"

section \<open>One run of the script\<close>

text \<open>
  The script configures the generation service and stops on failure (lines 26 to 32),
  runs the branch of the current step, and, when that branch neither reran nor raised,
  shows the side bar with its reset button (lines 646 to 650).
\<close>

definition dispatch :: "env \<Rightarrow> inputs \<Rightarrow> session \<Rightarrow> result" where
  "dispatch env inp s =
     (if step s = 1 then stage1 env (form1 inp) s
      else if step s = 2 then stage2 env (form2 inp) s
      else if step s = 3 then stage3 env (input3 inp) s
      else if step s = 4 then stage4 env (input4 inp) s
      else if step s = 5 then stage5 env (input5 inp) s
      else if step s = 6 then stage6 env (input6 inp) s
      else (s, Completed, []))"

definition sidebar :: "inputs \<Rightarrow> result \<Rightarrow> result" where
  "sidebar inp r =
     (case r of
        (s, Completed, evs) \<Rightarrow> if reset_app inp then (reset s, Rerun, evs) else (s, Completed, evs)
      | (s, out, evs) \<Rightarrow> (s, out, evs))"

definition run :: "env \<Rightarrow> inputs \<Rightarrow> session \<Rightarrow> result" where
  "run env inp s =
     (case configure_gemini env of
        Some e \<Rightarrow> (s, Stopped, [St_error (''Error configuring Gemini API: '' @ e)])
      | None \<Rightarrow> sidebar inp (dispatch env inp s))"

section \<open>The reading of the specification and example sessions\<close>






text \<open>
  Notions the statements about step 6 use. A request to create a post fails when the
  call raises, when the status is not 201, or when the body cannot be decoded.
  \<^verbatim>\<open>post_requests\<close> lists the post-creation requests among the events of a run.
\<close>

definition create_fails :: "post_body response \<Rightarrow> bool" where
  "create_fails r =
     (case r of
        Request_failed e \<Rightarrow> True
      | Response status_code response_text body \<Rightarrow> status_code \<noteq> 201 \<or> isl body)"

fun post_requests :: "event list \<Rightarrow> post_data list" where
  "post_requests [] = []"
| "post_requests (Http_create_post pd # evs) = pd # post_requests evs"
| "post_requests (ev # evs) = post_requests evs"











text \<open>
  An environment for the examples: all four secrets are set, the generation service is
  off line, the decoder knows the two texts the examples decode, the images convert, and
  the WordPress site refuses every request. The examples change one service at a time.
\<close>

definition example_loads :: "string \<Rightarrow> string + json" where
  "example_loads t =
     (if t = ''{\"title\": \"Phones\"}'' then Inr (JObj [(''title'', JStr ''Phones'')])
      else if t = ''[]'' then Inr (JArr [])
      else Inl ''not valid JSON'')"

definition example_env :: env where
  "example_env =
     \<lparr>secrets = [''GEMINI_API_KEY'' \<mapsto> ''g'', ''WP_URL'' \<mapsto> ''https://example.org'',
                 ''WP_USERNAME'' \<mapsto> ''tony'', ''WP_APP_PASSWORD'' \<mapsto> ''secret''],
      genai_configure = (\<lambda>api_key. None),
      generate_content = Inl ''offline'',
      json_loads = example_loads,
      py_str = (\<lambda>v. ''''),
      image_to_webp = (\<lambda>image_file. Inr image_file),
      post_media = (\<lambda>filename image_data. Request_failed ''offline''),
      post_media_alt = (\<lambda>i alt_text. None),
      get_categories = Request_failed ''offline'',
      get_tags = Request_failed ''offline'',
      post_posts = (\<lambda>post. Request_failed ''offline''),
      timestamp_now = ''20250115''\<rparr>"

definition no_form1 :: step1_form where
  "no_form1 = \<lparr>topic = '''', keyword = '''', tone = ''Professional'', word_count = 1500,
                submitted = False\<rparr>"

definition no_form2 :: step2_form where
  "no_form2 = \<lparr>title_input = '''', meta_desc_input = '''', slug_input = '''', focus_input = '''',
                outline_text = ''[]'', categories_input = '''', tags_input = '''',
                back_to_topic = False, next_step = False\<rparr>"

definition no_inputs :: inputs where
  "no_inputs =
     \<lparr>form1 = no_form1, form2 = no_form2,
      input3 = \<lparr>edited_content = '''', back_to_outline = False, plan_images = False\<rparr>,
      input4 = \<lparr>back_to_content = False, upload_images = False\<rparr>,
      input5 = \<lparr>uploaded_files = [], back_to_image_plan = False, publish_clicked = False\<rparr>,
      input6 = \<lparr>upload_draft = False, start_new_article = False\<rparr>,
      reset_app = False\<rparr>"


text \<open>
  A session that has passed steps 1 to 5: an article with two level-2 headings, a plan of
  three images (the featured one and one for each heading) and three uploaded files.
\<close>

definition phone_plan :: json where
  "phone_plan =
     JObj [(''images'', JArr
       [JObj [(''position'', JStr ''featured''), (''prompt'', JStr ''A phone on a desk''),
              (''alt_text'', JStr ''Best budget phones''), (''caption'', JStr '''')],
        JObj [(''position'', JStr ''after_section''), (''section_heading'', JStr ''Budget Phones''),
              (''prompt'', JStr ''Five phones in a row''),
              (''alt_text'', JStr ''Top budget phones''), (''caption'', JStr ''Our picks'')],
        JObj [(''position'', JStr ''after_section''), (''section_heading'', JStr ''Verdict''),
              (''prompt'', JStr ''A hand holding a phone''),
              (''alt_text'', JStr ''Budget phones verdict''), (''caption'', JStr '''')]])]"

definition phone_content :: string where
  "phone_content =
     ''<h2>Top 5 Budget Phones</h2>\<newline><p>Five picks.</p>\<newline><h2>Verdict</h2>\<newline><p>Buy one.</p>''"

definition phone_article :: article where
  "phone_article =
     [''topic'' \<mapsto> JStr ''Phones'', ''keyword'' \<mapsto> JStr ''budget phones'',
      ''tone'' \<mapsto> JStr ''Casual'', ''word_count'' \<mapsto> JInt 800,
      ''title'' \<mapsto> JStr ''Top 5 Budget Phones'',
      ''meta_description'' \<mapsto> JStr ''The best budget phones of the year.'',
      ''slug'' \<mapsto> JStr ''budget-phones'', ''focus_keyphrase'' \<mapsto> JStr ''budget phones'',
      ''outline'' \<mapsto> JArr [], ''categories'' \<mapsto> JArr [JStr ''Phones'', JStr ''Gadgets''],
      ''tags'' \<mapsto> JArr [JStr ''budget''],
      ''content'' \<mapsto> JStr phone_content, ''image_plan'' \<mapsto> phone_plan]"

definition ready_session :: session where
  "ready_session = \<lparr>step = 6, article_data = phone_article, images = [''png1'', ''png2'', ''png3'']\<rparr>"



text \<open>An uploaded in-content image whose descriptor targets the heading ``Budget Phones''.\<close>

definition picks_image :: wp_image where
  "picks_image =
     \<lparr>wp_id = 12, wp_url = ''https://example.org/top-budget-phones-20250115-2.webp'',
      wp_alt = ''Top budget phones'', wp_caption = JStr ''Our picks'',
      wp_position = JStr ''after_section'', wp_section_heading = JStr ''Budget Phones''\<rparr>"

section \<open>Properties\<close>

subsection \<open>File names\<close>















subsection \<open>Extraction of the JSON object from a response\<close>


















subsection \<open>Step 2: an outline that does not parse\<close>

text \<open>
  Claim C7, as amended. At step 2, with the form displayed, a click on ``Generate
  Article'' with an outline text that the decoder rejects ends the run with the decoder's
  exception, which no handler of the script catches (the script shows no message of its
  own). The step and the uploaded images are unchanged and no field of the article record
  is removed, but the assignments before the decoding have taken place: \<^verbatim>\<open>title\<close>,
  \<^verbatim>\<open>meta_description\<close>, \<^verbatim>\<open>slug\<close> and \<^verbatim>\<open>focus_keyphrase\<close> hold the values of the form;
  every other field is as before.
\<close>

theorem outline_parse_failure:
  assumes "join_check (data_get (article_data s) ''suggested_categories'' (JArr [])) = Inr ()"
    and "join_check (data_get (article_data s) ''suggested_tags'' (JArr [])) = Inr ()"
    and "next_step f" and "\<not> back_to_topic f"
    and "json_loads env (outline_text f) = Inl e"
  shows "stage2 env f s =
      (s\<lparr>article_data := (article_data s)
            (''title'' \<mapsto> JStr (title_input f), ''meta_description'' \<mapsto> JStr (meta_desc_input f),
             ''slug'' \<mapsto> JStr (slug_input f), ''focus_keyphrase'' \<mapsto> JStr (focus_input f))\<rparr>,
       Raised (JSONDecodeError e), [])
    \<and> step (fst (stage2 env f s)) = step s
    \<and> images (fst (stage2 env f s)) = images s
    \<and> dom (article_data s) \<subseteq> dom (article_data (fst (stage2 env f s)))
    \<and> (\<forall>k. k \<notin> {''title'', ''meta_description'', ''slug'', ''focus_keyphrase''}
          \<longrightarrow> article_data (fst (stage2 env f s)) k = article_data s k)"
proof -
  have eq: "stage2 env f s =
      (s\<lparr>article_data := (article_data s)
            (''title'' \<mapsto> JStr (title_input f), ''meta_description'' \<mapsto> JStr (meta_desc_input f),
             ''slug'' \<mapsto> JStr (slug_input f), ''focus_keyphrase'' \<mapsto> JStr (focus_input f))\<rparr>,
       Raised (JSONDecodeError e), [])"
    using assms by (simp add: stage2_def and_then_def Let_def)
  show ?thesis
    unfolding eq by auto
qed


lemma review_joins:
  "join_check (data_get (article_data (ready_session\<lparr>step := 2\<rparr>)) ''suggested_categories'' (JArr [])) = Inr ()"
  "join_check (data_get (article_data (ready_session\<lparr>step := 2\<rparr>)) ''suggested_tags'' (JArr [])) = Inr ()"
  by code_simp+

lemma review_title:
  "article_data (ready_session\<lparr>step := 2\<rparr>) ''title'' = Some (JStr ''Top 5 Budget Phones'')"
  by code_simp

lemma bad_form:
  "next_step (no_form2\<lparr>title_input := ''New title'', outline_text := ''[oops'', next_step := True\<rparr>)"
  "\<not> back_to_topic (no_form2\<lparr>title_input := ''New title'', outline_text := ''[oops'', next_step := True\<rparr>)"
  "json_loads example_env (outline_text (no_form2\<lparr>title_input := ''New title'', outline_text := ''[oops'', next_step := True\<rparr>)) = Inl ''not valid JSON''"
  by (simp_all add: no_form2_def example_env_def example_loads_def)


theorem outline_parse_failure_witness:
  "stage2 example_env (no_form2\<lparr>title_input := ''New title'', outline_text := ''[oops'', next_step := True\<rparr>)
      (ready_session\<lparr>step := 2\<rparr>) =
     (ready_session\<lparr>step := 2, article_data := phone_article
          (''title'' \<mapsto> JStr ''New title'', ''meta_description'' \<mapsto> JStr [],
           ''slug'' \<mapsto> JStr [], ''focus_keyphrase'' \<mapsto> JStr [])\<rparr>,
      Raised (JSONDecodeError ''not valid JSON''), [])"
proof -
  note r = outline_parse_failure [OF review_joins bad_form, THEN conjunct1]
  show ?thesis
    unfolding r by (simp add: no_form2_def ready_session_def)
qed

text \<open>
  Claim C7 as stated fails: the failed transition changes the article record. The title
  stored before the click is replaced by the title of the form although the outline did
  not parse.
\<close>

theorem outline_failure_changes_article:
  "article_data (ready_session\<lparr>step := 2\<rparr>) ''title'' = Some (JStr ''Top 5 Budget Phones'')
   \<and> stage2 example_env
        (no_form2\<lparr>title_input := ''New title'', outline_text := ''[oops'', next_step := True\<rparr>)
        (ready_session\<lparr>step := 2\<rparr>) =
       (ready_session\<lparr>step := 2, article_data := phone_article
          (''title'' \<mapsto> JStr ''New title'', ''meta_description'' \<mapsto> JStr [],
           ''slug'' \<mapsto> JStr [], ''focus_keyphrase'' \<mapsto> JStr [])\<rparr>,
        Raised (JSONDecodeError ''not valid JSON''), [])
   \<and> article_data (fst (stage2 example_env
          (no_form2\<lparr>title_input := ''New title'', outline_text := ''[oops'', next_step := True\<rparr>)
          (ready_session\<lparr>step := 2\<rparr>))) ''title'' = Some (JStr ''New title'')"
proof -
  have eq: "stage2 example_env
        (no_form2\<lparr>title_input := ''New title'', outline_text := ''[oops'', next_step := True\<rparr>)
        (ready_session\<lparr>step := 2\<rparr>) =
       (ready_session\<lparr>step := 2, article_data := phone_article
          (''title'' \<mapsto> JStr ''New title'', ''meta_description'' \<mapsto> JStr [],
           ''slug'' \<mapsto> JStr [], ''focus_keyphrase'' \<mapsto> JStr [])\<rparr>,
        Raised (JSONDecodeError ''not valid JSON''), [])"
    using review_joins bad_form
    by (simp add: stage2_def and_then_def Let_def no_form2_def ready_session_def)
  show ?thesis
    unfolding eq using review_title by simp
qed

subsection \<open>Step 5 and the start of a run\<close>









subsection \<open>The stage machine\<close>


























subsection \<open>Rules for sequenced actions\<close>

lemma then_do_Inr [simp]: "then_do (Inr x, evs) f = (fst (f x), evs @ snd (f x))"
  by (simp add: then_do_def split: prod.splits)

lemma then_do_Inl [simp]: "then_do (Inl e, evs) f = (Inl e, evs)"
  by (simp add: then_do_def)

lemma then_do_split:
  "P (then_do m f) \<longleftrightarrow>
     (\<forall>e evs. m = (Inl e, evs) \<longrightarrow> P (Inl e, evs))
     \<and> (\<forall>x evs. m = (Inr x, evs) \<longrightarrow> P (fst (f x), evs @ snd (f x)))"
proof (cases m)
  case (Pair r evs)
  then show ?thesis by (cases r) auto
qed

lemma then_do_split_asm:
  "P (then_do m f) \<longleftrightarrow>
     \<not> ((\<exists>e evs. m = (Inl e, evs) \<and> \<not> P (Inl e, evs))
        \<or> (\<exists>x evs. m = (Inr x, evs) \<and> \<not> P (fst (f x), evs @ snd (f x))))"
proof (cases m)
  case (Pair r evs)
  then show ?thesis by (cases r) auto
qed

lemmas then_do_splits = then_do_split then_do_split_asm

subsection \<open>The requests of a publish run\<close>

lemma upload_to_wordpress_no_post:
  "upload_to_wordpress env image_data filename alt_text = (r, evs) \<Longrightarrow> Http_create_post pd \<notin> set evs"
  by (auto simp: upload_to_wordpress_def split: sum.splits response.splits option.splits if_splits)

lemma process_image_no_post:
  "process_image env idx img_file img_data = (r, evs) \<Longrightarrow> Http_create_post pd \<notin> set evs"
  by (auto simp: process_image_def convert_to_webp_def Let_def
       split: sum.splits prod.splits option.splits dest: upload_to_wordpress_no_post)

lemma upload_all_no_post:
  "upload_all env idx pairs = (r, evs) \<Longrightarrow> Http_create_post pd \<notin> set evs"
proof (induction pairs arbitrary: idx r evs)
  case Nil
  then show ?case by simp
next
  case (Cons pair rest)
  from Cons.prems show ?case
    by (auto simp: quiet_def split: then_do_splits dest: Cons.IH process_image_no_post)
qed


lemma create_wordpress_post_request:
  assumes "create_wordpress_post env title content meta_desc slug categories tags featured = (r, evs)"
    and "Http_create_post pd \<in> set evs"
  shows "pd = \<lparr>p_title = title, p_content = content, p_status = ''draft'', p_slug = slug,
               p_meta_description = meta_desc, p_categories = categories, p_tags = tags,
               p_featured_media = featured\<rparr>"
  using assms
  by (auto simp: create_wordpress_post_def Let_def
      split: sum.splits response.splits if_splits)

lemma get_wp_no_post:
  "get_wp_categories env = (r, evs) \<Longrightarrow> Http_create_post pd \<notin> set evs"
  "get_wp_tags env = (r', evs') \<Longrightarrow> Http_create_post pd \<notin> set evs'"
  by (auto simp: get_wp_categories_def get_wp_tags_def split: sum.splits)

lemma create_wordpress_post_sent:
  assumes "Http_create_post pd \<in> set (snd (create_wordpress_post env title content meta_desc slug categories tags featured))"
  shows "pd = \<lparr>p_title = title, p_content = content, p_status = ''draft'', p_slug = slug,
               p_meta_description = meta_desc, p_categories = categories, p_tags = tags,
               p_featured_media = featured\<rparr>"
  using assms create_wordpress_post_request [of env title content meta_desc slug categories tags featured
      "fst (create_wordpress_post env title content meta_desc slug categories tags featured)"
      "snd (create_wordpress_post env title content meta_desc slug categories tags featured)" pd]
  by simp

lemma publish_request:
  assumes "publish env s = (r, evs)" and "Http_create_post pd \<in> set evs"
  shows "\<exists>plan descs imgs evs0 content.
      article_data s ''image_plan'' = Some plan
      \<and> and_then (subscript plan ''images'') iterate = Inr descs
      \<and> upload_all env 1 (zip (images s) descs) = (Inr imgs, evs0)
      \<and> article_data s ''content'' = Some content
      \<and> insert_images env (tl imgs) content = Inr (p_content pd)
      \<and> p_featured_media pd = featured_id imgs
      \<and> p_status pd = ''draft''"
  using assms
  apply (simp add: publish_def Let_def quiet_def data_item_def split: then_do_splits)
  apply (auto split: option.splits sum.splits
      dest: upload_all_no_post [where pd = pd] get_wp_no_post [where pd = pd]
      dest!: create_wordpress_post_sent)
  done

subsection \<open>Post creation: always a draft, and the session is kept on failure\<close>

lemma call_gemini_no_post: "call_gemini env = (r, evs) \<Longrightarrow> Http_create_post pd \<notin> set evs"
  by (auto simp: call_gemini_def split: sum.splits)

lemma stage1_no_post: "stage1 env f s = (s', out, evs) \<Longrightarrow> Http_create_post pd \<notin> set evs"
  by (auto simp: stage1_def split: if_splits prod.splits option.splits sum.splits json.splits
      dest: call_gemini_no_post [where pd = pd])

lemma stage2_no_post: "stage2 env f s = (s', out, evs) \<Longrightarrow> Http_create_post pd \<notin> set evs"
  by (auto simp: stage2_def Let_def split: if_splits sum.splits)

lemma generate_article_no_post:
  "generate_article env d = (r, evs) \<Longrightarrow> Http_create_post pd \<notin> set evs"
  by (auto simp: generate_article_def quiet_def
      split: if_splits prod.splits option.splits sum.splits then_do_splits
      dest: call_gemini_no_post [where pd = pd])

lemma stage3_no_post: "stage3 env i s = (s', out, evs) \<Longrightarrow> Http_create_post pd \<notin> set evs"
  by (auto simp: stage3_def Let_def split: if_splits prod.splits sum.splits
      dest: generate_article_no_post [where pd = pd])

lemma plan_images_of_no_post:
  "plan_images_of env d = (r, evs) \<Longrightarrow> Http_create_post pd \<notin> set evs"
  by (auto simp: plan_images_of_def quiet_def
      split: if_splits prod.splits option.splits sum.splits then_do_splits
      dest: call_gemini_no_post [where pd = pd])

lemma stage4_no_post: "stage4 env i s = (s', out, evs) \<Longrightarrow> Http_create_post pd \<notin> set evs"
  by (auto simp: stage4_def Let_def split: if_splits prod.splits sum.splits option.splits
      dest: plan_images_of_no_post [where pd = pd])

lemma stage5_no_post: "stage5 env i s = (s', out, evs) \<Longrightarrow> Http_create_post pd \<notin> set evs"
  by (auto simp: stage5_def Let_def split: if_splits sum.splits)

lemma stage6_drafts:
  "stage6 env i s = (s', out, evs) \<Longrightarrow> Http_create_post pd \<in> set evs \<Longrightarrow> p_status pd = ''draft''"
  by (auto simp: stage6_def split: if_splits prod.splits sum.splits option.splits
      dest: publish_request)

lemma dispatch_drafts:
  assumes "dispatch env inp s = (s', out, evs)" "Http_create_post pd \<in> set evs"
  shows "p_status pd = ''draft''"
  using assms stage1_no_post [of env "form1 inp" s s' out evs pd]
    stage2_no_post [of env "form2 inp" s s' out evs pd]
    stage3_no_post [of env "input3 inp" s s' out evs pd]
    stage4_no_post [of env "input4 inp" s s' out evs pd]
    stage5_no_post [of env "input5 inp" s s' out evs pd]
    stage6_drafts [of env "input6 inp" s s' out evs pd]
  by (auto simp: dispatch_def split: if_splits)

lemma run_drafts:
  assumes "Http_create_post pd \<in> set (snd (snd (run env inp s)))"
  shows "p_status pd = ''draft''"
proof -
  obtain s' out evs where r: "run env inp s = (s', out, evs)"
    by (cases "run env inp s") auto
  with assms have ev: "Http_create_post pd \<in> set evs" by simp
  from r ev obtain s1 out1 where "dispatch env inp s = (s1, out1, evs)"
    by (cases "dispatch env inp s")
       (auto simp: run_def sidebar_def split: option.splits outcome.splits if_splits)
  from dispatch_drafts [OF this ev] show ?thesis .
qed

lemma create_fails_none:
  assumes "create_fails (post_posts env \<lparr>p_title = title, p_content = content, p_status = ''draft'',
      p_slug = slug, p_meta_description = meta_desc, p_categories = categories, p_tags = tags,
      p_featured_media = featured\<rparr>)"
  shows "fst (create_wordpress_post env title content meta_desc slug categories tags featured)
      \<noteq> Inr (Some created)"
  using assms
  by (auto simp: create_wordpress_post_def create_fails_def Let_def
      split: sum.splits response.splits if_splits)

lemma publish_fails:
  assumes "\<forall>pd. create_fails (post_posts env pd)"
  shows "fst (publish env s) \<noteq> Inr (Some created)"
  using assms create_fails_none [of env _ _ _ _ _ _ _ created]
  by (auto simp: publish_def Let_def quiet_def split: then_do_splits)

lemma stage6_kept:
  assumes "(\<forall>pd. create_fails (post_posts env pd)) \<or> \<not> start_new_article i"
  shows "fst (stage6 env i s) = s"
proof (cases "publish env s")
  case (Pair r evs)
  with assms publish_fails [of env s] show ?thesis
    by (auto simp: stage6_def split: sum.splits option.splits)
qed

lemma run6_kept:
  assumes "step s = 6" "\<not> reset_app inp"
    and "(\<forall>pd. create_fails (post_posts env pd)) \<or> \<not> start_new_article (input6 inp)"
  shows "fst (run env inp s) = s"
proof -
  from assms(1) have d: "dispatch env inp s = stage6 env (input6 inp) s"
    by (simp add: dispatch_def)
  obtain s' out evs where st: "stage6 env (input6 inp) s = (s', out, evs)"
    by (cases "stage6 env (input6 inp) s") auto
  with stage6_kept [OF assms(3), of s] have "s' = s" by simp
  with st d assms(2) show ?thesis
    by (auto simp: run_def sidebar_def split: option.splits outcome.splits)
qed

text \<open>
  Claim C4. Every request to create a post that a run sends, in whatever step and on
  whatever input, has the status \<^verbatim>\<open>draft\<close>. And a run of step 6 (without a click on the
  reset button of the side bar) leaves the session state, that is the step, the article
  record and the uploaded images, exactly as it was when the creation of the post fails
  (the call raises, the status is not 201 or the body cannot be decoded), so the same
  button can be clicked again; more generally whenever ``Start New Article'' is not
  clicked.
\<close>

theorem post_is_draft_and_failure_keeps_session:
  "(\<forall>pd. Http_create_post pd \<in> set (snd (snd (run env inp s))) \<longrightarrow> p_status pd = ''draft'')
   \<and> (step s = 6 \<and> \<not> reset_app inp \<and> (\<forall>pd. create_fails (post_posts env pd))
        \<longrightarrow> fst (run env inp s) = s)
   \<and> (step s = 6 \<and> \<not> reset_app inp \<and> \<not> start_new_article (input6 inp)
        \<longrightarrow> fst (run env inp s) = s)"
  using run_drafts [of _ env inp s] run6_kept [of s inp env] by blast


lemma offline_requests:
  "post_requests (snd (snd (run example_env
       (no_inputs\<lparr>input6 := \<lparr>upload_draft = True, start_new_article = True\<rparr>\<rparr>) ready_session))) =
     [\<lparr>p_title = JStr ''Top 5 Budget Phones'', p_content = JStr phone_content, p_status = ''draft'',
       p_slug = JStr ''budget-phones'',
       p_meta_description = JStr ''The best budget phones of the year.'',
       p_categories = [], p_tags = [], p_featured_media = 0\<rparr>]"
  by code_simp

theorem post_is_draft_and_failure_keeps_session_witness:
  "fst (run example_env
       (no_inputs\<lparr>input6 := \<lparr>upload_draft = True, start_new_article = True\<rparr>\<rparr>) ready_session)
     = ready_session
   \<and> post_requests (snd (snd (run example_env
       (no_inputs\<lparr>input6 := \<lparr>upload_draft = True, start_new_article = True\<rparr>\<rparr>) ready_session))) =
     [\<lparr>p_title = JStr ''Top 5 Budget Phones'', p_content = JStr phone_content, p_status = ''draft'',
       p_slug = JStr ''budget-phones'',
       p_meta_description = JStr ''The best budget phones of the year.'',
       p_categories = [], p_tags = [], p_featured_media = 0\<rparr>]"
proof -
  have fails: "\<forall>pd. create_fails (post_posts example_env pd)"
    by (simp add: example_env_def create_fails_def)
  have six: "step ready_session = 6" by (simp add: ready_session_def)
  have quiet: "\<not> reset_app (no_inputs\<lparr>input6 := \<lparr>upload_draft = True, start_new_article = True\<rparr>\<rparr>)"
    by (simp add: no_inputs_def)
  from post_is_draft_and_failure_keeps_session [of example_env
      "no_inputs\<lparr>input6 := \<lparr>upload_draft = True, start_new_article = True\<rparr>\<rparr>" ready_session]
    fails six quiet
  have "fst (run example_env
       (no_inputs\<lparr>input6 := \<lparr>upload_draft = True, start_new_article = True\<rparr>\<rparr>) ready_session)
     = ready_session"
    by blast
  with offline_requests show ?thesis by simp
qed

subsection \<open>The upload loop and the splice\<close>












subsection \<open>Insertion only\<close>






subsection \<open>Partial failure of the uploads\<close>

























subsection \<open>The heading search\<close>

text \<open>
  Claim C2, evaluated. With a heading ``Top 5 Budget Phones'' and the target ``Budget
  Phones'' the block is inserted right after the closing tag of that heading. But the
  dot of the pattern also matches the characters of tags, so on one line a match can start
  at an earlier heading and run across elements. In the third text no heading contains the
  target, the words stand in a paragraph between two headings: the block is inserted
  after the closing tag of ``Verdict'' instead of the content being left alone. In the
  fourth text the block lands after ``Verdict'' as well, not after the heading that
  contains the target. A heading whose opening tag has an attribute is never found.
\<close>

theorem heading_search_crosses_elements:
  "search_heading ''Budget Phones'' ''<p>Intro</p><h2>Top 5 Budget Phones</h2><p>Five picks.</p>'' = Some 40
   \<and> insert_image example_env picks_image
        (JStr ''<p>Intro</p><h2>Top 5 Budget Phones</h2><p>Five picks.</p>'') =
       Inr (JStr (''<p>Intro</p><h2>Top 5 Budget Phones</h2>'' @ img_html example_env picks_image
                  @ ''<p>Five picks.</p>''))
   \<and> search_heading ''Budget Phones''
        ''<h2>Intro</h2><p>Our budget phones guide.</p><h2>Verdict</h2>'' = Some 61
   \<and> insert_image example_env picks_image
        (JStr ''<h2>Intro</h2><p>Our budget phones guide.</p><h2>Verdict</h2>'') =
       Inr (JStr (''<h2>Intro</h2><p>Our budget phones guide.</p><h2>Verdict</h2>''
                  @ img_html example_env picks_image))
   \<and> insert_image example_env picks_image
        (JStr ''<h2>Intro</h2><p>Our budget phones guide.</p><h2>Verdict</h2><h2>Top 5 Budget Phones</h2>'') =
       Inr (JStr (''<h2>Intro</h2><p>Our budget phones guide.</p><h2>Verdict</h2>''
                  @ img_html example_env picks_image @ ''<h2>Top 5 Budget Phones</h2>''))
   \<and> insert_image example_env picks_image
        (JStr ''<h2 id=\"picks\">Top 5 Budget Phones</h2><p>Five picks.</p>'') =
       Inr (JStr ''<h2 id=\"picks\">Top 5 Budget Phones</h2><p>Five picks.</p>'')"
  by code_simp

end
